theory Spec2Isabelle
  imports Main
begin

section \<open>The Africa monitoring server (africa-server.js)\<close>

text \<open>
  The server is one request handler given to \<open>http.createServer\<close>. It logs the
  request, sets three CORS headers, answers \<open>OPTIONS\<close> at once, and otherwise
  compares \<open>req.url\<close> with three fixed strings: two of them serve \<open>africa.html\<close>,
  one serves \<open>africa_monitoring.json\<close>, and everything else is a plain 404.

  Bytes are HOL characters (a \<open>char\<close> is eight bits), so a file's contents and a
  response body are both of type \<open>string\<close>. The JavaScript string literals of the
  handler are ASCII, so their UTF-8 encoding is the literal itself.
\<close>

subsection \<open>Requests, responses, the file system\<close>

type_synonym bytes = string

text \<open>Of \<open>http.IncomingMessage\<close>, the handler reads \<open>req.method\<close> and \<open>req.url\<close>.\<close>

record request =
  method_name :: string
  url :: string

text \<open>
  \<open>http.ServerResponse\<close>: the status code (200 until \<open>writeHead\<close> changes it), the
  headers in the order they were first set, each under the name it was set with, the
  bytes written so far, and whether \<open>end\<close> was called. This is what the handler hands
  to Node. What Node does with it on the wire (the \<open>Date\<close> and \<open>Connection\<close> headers
  it adds, the framing of the body, leaving the body out of the answer to a HEAD
  request) is Node's and is not modelled.
\<close>

record response =
  statusCode :: nat
  headers :: "(string \<times> string) list"
  body :: bytes
  finished :: bool

text \<open>
  \<open>fs.readFile(path, callback)\<close> calls back with an error or with the contents of
  the file. The file system is the function that gives this outcome for every path.
\<close>

datatype fs_error = ENOENT | EACCES | EISDIR | EIO

type_synonym filesystem = "string \<Rightarrow> fs_error + bytes"

text \<open>
  What the process does besides answering: the lines it gives to \<open>console.log\<close> and
  the paths it gives to \<open>fs.readFile\<close>, both oldest first. This is all the state
  that outlives a request.
\<close>

record world =
  console :: "string list"
  fs_reads :: "string list"

subsection \<open>Node's response and path primitives\<close>

text \<open>Header names are compared without regard to ASCII case.\<close>

definition lower_char :: "char \<Rightarrow> char" where
  "lower_char c =
     (if 65 \<le> (of_char c :: nat) \<and> (of_char c :: nat) \<le> 90
      then char_of ((of_char c :: nat) + 32) else c)"

definition toLowerCase :: "string \<Rightarrow> string" where
  "toLowerCase s = map lower_char s"

fun put_header :: "string \<Rightarrow> string \<Rightarrow> (string \<times> string) list \<Rightarrow> (string \<times> string) list" where
  "put_header k v [] = [(k, v)]"
| "put_header k v ((k', v') # hs) =
     (if toLowerCase k' = toLowerCase k then (k, v) # hs
      else (k', v') # put_header k v hs)"

fun find_header :: "string \<Rightarrow> (string \<times> string) list \<Rightarrow> string option" where
  "find_header k [] = None"
| "find_header k ((k', v') # hs) =
     (if toLowerCase k' = toLowerCase k then Some v' else find_header k hs)"

definition new_response :: response where
  "new_response = \<lparr>statusCode = 200, headers = [], body = [], finished = False\<rparr>"

definition setHeader :: "string \<Rightarrow> string \<Rightarrow> response \<Rightarrow> response" where
  "setHeader k v res = res\<lparr>headers := put_header k v (headers res)\<rparr>"

definition getHeader :: "string \<Rightarrow> response \<Rightarrow> string option" where
  "getHeader k res = find_header k (headers res)"

text \<open>
  \<open>res.writeHead(status, obj)\<close> sets the status and sets every header of \<open>obj\<close> over
  those already set; \<open>res.writeHead(status)\<close> is the case of no headers.
\<close>

definition writeHead :: "nat \<Rightarrow> (string \<times> string) list \<Rightarrow> response \<Rightarrow> response" where
  "writeHead code obj res =
     res\<lparr>statusCode := code,
         headers := fold (\<lambda>(k, v) hs. put_header k v hs) obj (headers res)\<rparr>"

text \<open>
  \<open>res.end(data)\<close> writes \<open>data\<close> and finishes the response; \<open>res.end()\<close> is the
  case of no data.
\<close>

definition end_response :: "bytes \<Rightarrow> response \<Rightarrow> response" where
  "end_response data res = res\<lparr>body := body res @ data, finished := True\<rparr>"

text \<open>
  \<open>path.join(dir, name)\<close> for a directory that is already normalised, as \<open>__dirname\<close>
  always is, and a plain file name: one separator between the two, none after the root
  directory, and an empty directory contributes nothing.
\<close>

definition path_join :: "string \<Rightarrow> string \<Rightarrow> string" where
  "path_join dir name =
     (if dir = [] then name
      else if last dir = CHR ''/'' then dir @ name
      else dir @ ''/'' @ name)"

definition console_log :: "string \<Rightarrow> world \<Rightarrow> world" where
  "console_log line w = w\<lparr>console := console w @ [line]\<rparr>"

definition readFile :: "filesystem \<Rightarrow> string \<Rightarrow> world \<Rightarrow> (fs_error + bytes) \<times> world" where
  "readFile fs p w = (fs p, w\<lparr>fs_reads := fs_reads w @ [p]\<rparr>)"

subsection \<open>\<open>JSON.stringify\<close> on objects of strings\<close>

datatype json = JString string | JObject "(string \<times> json) list"

definition hex_digit :: "nat \<Rightarrow> char" where
  "hex_digit n = (if n < 10 then char_of (48 + n) else char_of (87 + n))"

text \<open>
  A string is quoted; the quote, the backslash and the control characters are
  escaped, the control characters by their short form where JSON has one.
\<close>

definition json_escape :: "char \<Rightarrow> string" where
  "json_escape c =
     (let n = (of_char c :: nat) in
      if n = 34 then [CHR 0x5C, CHR 0x22]
      else if n = 92 then [CHR 0x5C, CHR 0x5C]
      else if n = 8 then [CHR 0x5C, CHR ''b'']
      else if n = 9 then [CHR 0x5C, CHR ''t'']
      else if n = 10 then [CHR 0x5C, CHR ''n'']
      else if n = 12 then [CHR 0x5C, CHR ''f'']
      else if n = 13 then [CHR 0x5C, CHR ''r'']
      else if n < 32 then [CHR 0x5C, CHR ''u'', CHR ''0'', CHR ''0'',
                           hex_digit (n div 16), hex_digit (n mod 16)]
      else [c])"

definition json_quote :: "string \<Rightarrow> string" where
  "json_quote s = [CHR 0x22] @ concat (map json_escape s) @ [CHR 0x22]"

fun join_with :: "string \<Rightarrow> string list \<Rightarrow> string" where
  "join_with sep [] = []"
| "join_with sep [x] = x"
| "join_with sep (x # y # ys) = x @ sep @ join_with sep (y # ys)"

fun JSON_stringify :: "json \<Rightarrow> string" where
  "JSON_stringify (JString s) = json_quote s"
| "JSON_stringify (JObject kvs) =
     ''{'' @ join_with '','' (map (\<lambda>(k, v). json_quote k @ '':'' @ JSON_stringify v) kvs) @ ''}''"

subsection \<open>The request handler\<close>

text \<open>
  \<open>DATA_DIR\<close> is \<open>__dirname\<close>, the directory of the script; \<open>now\<close> is what
  \<open>new Date().toISOString()\<close> gives when the request arrives. The callback of
  \<open>fs.readFile\<close> is run with the outcome of the read, in the same step.
\<close>

definition handler :: "string \<Rightarrow> filesystem \<Rightarrow> string \<Rightarrow> request \<Rightarrow> world \<Rightarrow> response \<times> world" where
  "handler DATA_DIR fs now req w0 =
     (let w1 = console_log (now @ '' - '' @ method_name req @ '' '' @ url req) w0;
          res = setHeader ''Access-Control-Allow-Headers'' ''Content-Type''
                 (setHeader ''Access-Control-Allow-Methods'' ''GET, OPTIONS''
                   (setHeader ''Access-Control-Allow-Origin'' ''*'' new_response))
      in
      if method_name req = ''OPTIONS'' then
        (end_response [] (writeHead 200 [] res), w1)
      else if url req = ''/'' \<or> url req = ''/africa.html'' then
        (let filePath = path_join DATA_DIR ''africa.html'';
             (r, w2) = readFile fs filePath w1
         in case r of
              Inl err \<Rightarrow>
                (end_response ''404 Not Found''
                   (writeHead 404 [(''Content-Type'', ''text/plain'')] res), w2)
            | Inr data \<Rightarrow>
                (end_response data
                   (writeHead 200 [(''Content-Type'', ''text/html; charset=utf-8'')] res), w2))
      else if url req = ''/africa_monitoring.json'' then
        (let filePath = path_join DATA_DIR ''africa_monitoring.json'';
             (r, w2) = readFile fs filePath w1
         in case r of
              Inl err \<Rightarrow>
                (end_response (JSON_stringify (JObject [(''error'', JString ''Data not found'')]))
                   (writeHead 404 [(''Content-Type'', ''application/json'')] res), w2)
            | Inr data \<Rightarrow>
                (end_response data
                   (writeHead 200 [(''Content-Type'', ''application/json; charset=utf-8'')] res), w2))
      else
        (end_response ''404 Not Found''
           (writeHead 404 [(''Content-Type'', ''text/plain'')] res), w1))"

subsection \<open>The server: one handler call per request\<close>

text \<open>
  A request arrives at some moment: the file system as it is then, the clock as it
  reads then, and the request. The server answers the requests in the order they
  arrive, each with the handler, passing on what the process has logged and read.
\<close>

record event =
  ev_fs :: filesystem
  ev_now :: string
  ev_req :: request

fun serve :: "string \<Rightarrow> event list \<Rightarrow> world \<Rightarrow> response list \<times> world" where
  "serve DATA_DIR [] w = ([], w)"
| "serve DATA_DIR (e # es) w =
     (let (r, w') = handler DATA_DIR (ev_fs e) (ev_now e) (ev_req e) w;
          (rs, w'') = serve DATA_DIR es w'
      in (r # rs, w''))"

definition world0 :: world where
  "world0 = \<lparr>console = [], fs_reads = []\<rparr>"

subsection \<open>Values the statements below refer to\<close>

text \<open>
  The three headers every response starts with, the answer given when nothing is
  served, and three file systems to run the handler on: one where both files exist
  under \<open>/app\<close>, one where nothing exists, one where both files exist but cannot be
  read.
\<close>

definition cors_headers :: "(string \<times> string) list" where
  "cors_headers =
     [(''Access-Control-Allow-Origin'', ''*''),
      (''Access-Control-Allow-Methods'', ''GET, OPTIONS''),
      (''Access-Control-Allow-Headers'', ''Content-Type'')]"

definition not_found_response :: response where
  "not_found_response =
     \<lparr>statusCode = 404,
      headers = cors_headers @ [(''Content-Type'', ''text/plain'')],
      body = ''404 Not Found'', finished = True\<rparr>"

definition fs_present :: filesystem where
  "fs_present =
     (\<lambda>p. if p = ''/app/africa.html'' then Inr ''<html>Africa</html>''
          else if p = ''/app/africa_monitoring.json'' then Inr ''{}''
          else Inl ENOENT)"

definition fs_absent :: filesystem where
  "fs_absent = (\<lambda>p. Inl ENOENT)"

definition fs_unreadable :: filesystem where
  "fs_unreadable =
     (\<lambda>p. if p = ''/app/africa.html'' \<or> p = ''/app/africa_monitoring.json''
          then Inl EACCES else Inl ENOENT)"

text \<open>
  A file system in which the data file still has an earlier content, and a run of the
  server to try the statements on: four requests, one for each way the handler can
  answer (a file served, a read failure, a preflight, an unknown path).
\<close>

definition fs_earlier :: filesystem where
  "fs_earlier =
     (\<lambda>p. if p = ''/app/africa_monitoring.json'' then Inr ''[1, 2]'' else Inl ENOENT)"

definition example_events :: "event list" where
  "example_events =
     [\<lparr>ev_fs = fs_present, ev_now = ''2025-01-01T00:00:00.000Z'',
       ev_req = \<lparr>method_name = ''GET'', url = ''/''\<rparr>\<rparr>,
      \<lparr>ev_fs = fs_absent, ev_now = ''2025-01-01T00:00:01.000Z'',
       ev_req = \<lparr>method_name = ''GET'', url = ''/africa_monitoring.json''\<rparr>\<rparr>,
      \<lparr>ev_fs = fs_earlier, ev_now = ''2025-01-01T00:00:02.000Z'',
       ev_req = \<lparr>method_name = ''OPTIONS'', url = ''/africa_monitoring.json''\<rparr>\<rparr>,
      \<lparr>ev_fs = fs_earlier, ev_now = ''2025-01-01T00:00:03.000Z'',
       ev_req = \<lparr>method_name = ''GET'', url = ''/unknown''\<rparr>\<rparr>]"

section \<open>What the handler returns, branch by branch\<close>

lemma after_cors:
  "setHeader ''Access-Control-Allow-Headers'' ''Content-Type''
     (setHeader ''Access-Control-Allow-Methods'' ''GET, OPTIONS''
       (setHeader ''Access-Control-Allow-Origin'' ''*'' new_response))
   = \<lparr>statusCode = 200, headers = cors_headers, body = [], finished = False\<rparr>"
  by (simp add: setHeader_def new_response_def toLowerCase_def lower_char_def cors_headers_def)

lemma writeHead_content_type:
  "writeHead code [(''Content-Type'', v)]
     \<lparr>statusCode = 200, headers = cors_headers, body = [], finished = False\<rparr>
   = \<lparr>statusCode = code, headers = cors_headers @ [(''Content-Type'', v)],
      body = [], finished = False\<rparr>"
  by (simp add: writeHead_def toLowerCase_def lower_char_def cors_headers_def)

lemma stringify_error:
  \<open>JSON_stringify (JObject [(''error'', JString ''Data not found'')])
     = ''{"error":"Data not found"}''\<close>
  by (simp add: json_quote_def json_escape_def)

lemma handler_options:
  assumes "method_name req = ''OPTIONS''"
  shows "handler D fs now req w =
           (\<lparr>statusCode = 200, headers = cors_headers, body = [], finished = True\<rparr>,
            console_log (now @ '' - '' @ method_name req @ '' '' @ url req) w)"
  using assms
  by (simp add: handler_def after_cors Let_def) (simp add: writeHead_def end_response_def)

lemma handler_html:
  assumes "method_name req \<noteq> ''OPTIONS''" and "url req = ''/'' \<or> url req = ''/africa.html''"
  shows "handler D fs now req w =
           (case fs (path_join D ''africa.html'') of
              Inl err \<Rightarrow> not_found_response
            | Inr data \<Rightarrow>
                \<lparr>statusCode = 200,
                 headers = cors_headers @ [(''Content-Type'', ''text/html; charset=utf-8'')],
                 body = data, finished = True\<rparr>,
            (console_log (now @ '' - '' @ method_name req @ '' '' @ url req) w)
              \<lparr>fs_reads := fs_reads w @ [path_join D ''africa.html'']\<rparr>)"
  using assms
  by (auto simp add: handler_def after_cors Let_def readFile_def writeHead_content_type
        end_response_def not_found_response_def console_log_def split: sum.splits)

lemma handler_json:
  assumes "method_name req \<noteq> ''OPTIONS''" and "url req = ''/africa_monitoring.json''"
  shows \<open>handler D fs now req w =
           (case fs (path_join D ''africa_monitoring.json'') of
              Inl err \<Rightarrow>
                \<lparr>statusCode = 404,
                 headers = cors_headers @ [(''Content-Type'', ''application/json'')],
                 body = ''{"error":"Data not found"}'', finished = True\<rparr>
            | Inr data \<Rightarrow>
                \<lparr>statusCode = 200,
                 headers = cors_headers @ [(''Content-Type'', ''application/json; charset=utf-8'')],
                 body = data, finished = True\<rparr>,
            (console_log (now @ '' - '' @ method_name req @ '' '' @ url req) w)
              \<lparr>fs_reads := fs_reads w @ [path_join D ''africa_monitoring.json'']\<rparr>)\<close>
  using assms
  by (auto simp add: handler_def after_cors Let_def readFile_def writeHead_content_type
        end_response_def stringify_error console_log_def
      simp del: JSON_stringify.simps split: sum.splits)

lemma handler_fallback:
  assumes "method_name req \<noteq> ''OPTIONS''" and "url req \<noteq> ''/''"
    and "url req \<noteq> ''/africa.html''" and "url req \<noteq> ''/africa_monitoring.json''"
  shows "handler D fs now req w =
           (not_found_response, console_log (now @ '' - '' @ method_name req @ '' '' @ url req) w)"
  using assms
  by (simp add: handler_def after_cors Let_def writeHead_content_type
        end_response_def not_found_response_def)

lemma handler_cases:
  "method_name req = ''OPTIONS'' \<or>
   (method_name req \<noteq> ''OPTIONS'' \<and> (url req = ''/'' \<or> url req = ''/africa.html'')) \<or>
   (method_name req \<noteq> ''OPTIONS'' \<and> url req = ''/africa_monitoring.json'') \<or>
   (method_name req \<noteq> ''OPTIONS'' \<and> url req \<noteq> ''/'' \<and> url req \<noteq> ''/africa.html''
      \<and> url req \<noteq> ''/africa_monitoring.json'')"
  by blast

lemma find_content_type:
  "find_header ''Content-Type'' (cors_headers @ [(''Content-Type'', v)]) = Some v"
  by (simp add: cors_headers_def toLowerCase_def lower_char_def)

lemma find_cors:
  "find_header ''Access-Control-Allow-Origin'' (cors_headers @ hs) = Some ''*''"
  "find_header ''Access-Control-Allow-Methods'' (cors_headers @ hs) = Some ''GET, OPTIONS''"
  "find_header ''Access-Control-Allow-Headers'' (cors_headers @ hs) = Some ''Content-Type''"
  by (simp_all add: cors_headers_def toLowerCase_def lower_char_def)

lemma handler_headers:
  "\<exists>hs. headers (fst (handler D fs now req w)) = cors_headers @ hs"
  using handler_cases [of req]
  by (auto simp add: handler_options handler_html handler_json handler_fallback
        not_found_response_def split: sum.splits)

lemma handler_response_agree:
  assumes "fs (path_join D ''africa.html'') = fs' (path_join D ''africa.html'')"
    and "fs (path_join D ''africa_monitoring.json'') = fs' (path_join D ''africa_monitoring.json'')"
  shows "fst (handler D fs now req w) = fst (handler D fs' now' req w')"
  using handler_cases [of req] assms
  by (auto simp add: handler_options handler_html handler_json handler_fallback)

lemma serve_snoc:
  "fst (serve D (es @ [e]) w) =
     fst (serve D es w) @ [fst (handler D (ev_fs e) (ev_now e) (ev_req e) (snd (serve D es w)))]"
  by (induction es arbitrary: w) (simp_all add: case_prod_unfold Let_def)

lemma present_paths:
  "fs_present (path_join ''/app'' ''africa.html'') = Inr ''<html>Africa</html>''"
  "fs_present (path_join ''/app'' ''africa_monitoring.json'') = Inr ''{}''"
  by (simp_all add: fs_present_def path_join_def)

lemma absent_paths:
  "fs_absent (path_join ''/app'' ''africa.html'') = Inl ENOENT"
  "fs_absent (path_join ''/app'' ''africa_monitoring.json'') = Inl ENOENT"
  by (simp_all add: fs_absent_def)

lemma unreadable_paths:
  "fs_unreadable (path_join ''/app'' ''africa.html'') = Inl EACCES"
  "fs_unreadable (path_join ''/app'' ''africa_monitoring.json'') = Inl EACCES"
  by (simp_all add: fs_unreadable_def path_join_def)

section \<open>The routes that serve a file\<close>

text \<open>
  C1. Whenever reading the JSON data file succeeds, a GET request for
  \<open>/africa_monitoring.json\<close> is answered with status 200, content type
  \<open>application/json; charset=utf-8\<close> and a body that is the file's bytes, nothing
  added and nothing removed.
\<close>

theorem json_route_serves_file:
  assumes "fs (path_join D ''africa_monitoring.json'') = Inr data"
  shows "let res = fst (handler D fs now \<lparr>method_name = ''GET'', url = ''/africa_monitoring.json''\<rparr> w)
         in statusCode res = 200
            \<and> getHeader ''Content-Type'' res = Some ''application/json; charset=utf-8''
            \<and> body res = data \<and> finished res"
  using assms by (simp add: handler_json getHeader_def find_content_type)

theorem json_route_serves_file_witness:
  "fs_present (path_join ''/app'' ''africa_monitoring.json'') = Inr ''{}''
   \<and> (let res = fst (handler ''/app'' fs_present ''2025-01-01T00:00:00.000Z''
                      \<lparr>method_name = ''GET'', url = ''/africa_monitoring.json''\<rparr> world0)
      in statusCode res = 200
         \<and> getHeader ''Content-Type'' res = Some ''application/json; charset=utf-8''
         \<and> body res = ''{}'' \<and> finished res)"
  by (rule conjI [OF present_paths(2)
        json_route_serves_file [where fs = fs_present and D = "''/app''", OF present_paths(2)]])

text \<open>
  C2. Whenever reading the HTML page succeeds, a GET request for \<open>/\<close> or for
  \<open>/africa.html\<close> is answered with status 200, content type
  \<open>text/html; charset=utf-8\<close> and a body that is the file's bytes.
\<close>

theorem html_route_serves_file:
  assumes "fs (path_join D ''africa.html'') = Inr data"
    and "u = ''/'' \<or> u = ''/africa.html''"
  shows "let res = fst (handler D fs now \<lparr>method_name = ''GET'', url = u\<rparr> w)
         in statusCode res = 200
            \<and> getHeader ''Content-Type'' res = Some ''text/html; charset=utf-8''
            \<and> body res = data \<and> finished res"
  using assms by (auto simp add: handler_html getHeader_def find_content_type)

theorem html_route_serves_file_witness:
  "(let res = fst (handler ''/app'' fs_present ''2025-01-01T00:00:00.000Z''
                     \<lparr>method_name = ''GET'', url = ''/''\<rparr> world0)
    in statusCode res = 200
       \<and> getHeader ''Content-Type'' res = Some ''text/html; charset=utf-8''
       \<and> body res = ''<html>Africa</html>'' \<and> finished res)
   \<and> (let res = fst (handler ''/app'' fs_present ''2025-01-01T00:00:00.000Z''
                     \<lparr>method_name = ''GET'', url = ''/africa.html''\<rparr> world0)
    in statusCode res = 200
       \<and> getHeader ''Content-Type'' res = Some ''text/html; charset=utf-8''
       \<and> body res = ''<html>Africa</html>'' \<and> finished res)"
  by (rule conjI
        [OF html_route_serves_file [where fs = fs_present and D = "''/app''" and u = "''/''",
              OF present_paths(1) disjI1 [OF refl]]
            html_route_serves_file [where fs = fs_present and D = "''/app''" and u = "''/africa.html''",
              OF present_paths(1) disjI2 [OF refl]]])

section \<open>Read failures\<close>

text \<open>
  C3. Whenever reading the JSON data file fails, for whatever reason (the file is
  absent, or it cannot be read), a GET request for \<open>/africa_monitoring.json\<close> is
  answered with status 404, content type \<open>application/json\<close> and the body
  \<open>{"error":"Data not found"}\<close>, which is the serialisation of the object whose one
  field \<open>error\<close> is \<open>Data not found\<close>. The whole response is the same for every
  kind of failure.
\<close>

theorem json_route_read_failure:
  assumes "fs (path_join D ''africa_monitoring.json'') = Inl err"
  shows \<open>fst (handler D fs now \<lparr>method_name = ''GET'', url = ''/africa_monitoring.json''\<rparr> w)
           = \<lparr>statusCode = 404,
              headers = cors_headers @ [(''Content-Type'', ''application/json'')],
              body = ''{"error":"Data not found"}'', finished = True\<rparr>
         \<and> getHeader ''Content-Type''
              (fst (handler D fs now \<lparr>method_name = ''GET'', url = ''/africa_monitoring.json''\<rparr> w))
             = Some ''application/json''
         \<and> JSON_stringify (JObject [(''error'', JString ''Data not found'')])
             = ''{"error":"Data not found"}''\<close>
  using assms
  by (simp add: handler_json getHeader_def find_content_type stringify_error
        del: JSON_stringify.simps)

theorem json_route_read_failure_witness:
  \<open>fst (handler ''/app'' fs_absent ''2025-01-01T00:00:00.000Z''
          \<lparr>method_name = ''GET'', url = ''/africa_monitoring.json''\<rparr> world0)
     = \<lparr>statusCode = 404,
        headers = cors_headers @ [(''Content-Type'', ''application/json'')],
        body = ''{"error":"Data not found"}'', finished = True\<rparr>
   \<and> getHeader ''Content-Type''
        (fst (handler ''/app'' fs_absent ''2025-01-01T00:00:00.000Z''
                \<lparr>method_name = ''GET'', url = ''/africa_monitoring.json''\<rparr> world0))
       = Some ''application/json''
   \<and> JSON_stringify (JObject [(''error'', JString ''Data not found'')])
       = ''{"error":"Data not found"}''\<close>
  by (rule json_route_read_failure [where fs = fs_absent and D = "''/app''", OF absent_paths(2)])

text \<open>
  C4. Whenever reading the HTML page fails, for whatever reason, a GET request for
  \<open>/\<close> or for \<open>/africa.html\<close> is answered with status 404, content type
  \<open>text/plain\<close> and the body \<open>404 Not Found\<close>.
\<close>

theorem html_route_read_failure:
  assumes "fs (path_join D ''africa.html'') = Inl err"
    and "u = ''/'' \<or> u = ''/africa.html''"
  shows "let res = fst (handler D fs now \<lparr>method_name = ''GET'', url = u\<rparr> w)
         in statusCode res = 404
            \<and> getHeader ''Content-Type'' res = Some ''text/plain''
            \<and> body res = ''404 Not Found'' \<and> finished res"
  using assms
  by (auto simp add: handler_html getHeader_def find_content_type not_found_response_def)

theorem html_route_read_failure_witness:
  "(let res = fst (handler ''/app'' fs_unreadable ''2025-01-01T00:00:00.000Z''
                     \<lparr>method_name = ''GET'', url = ''/''\<rparr> world0)
    in statusCode res = 404
       \<and> getHeader ''Content-Type'' res = Some ''text/plain''
       \<and> body res = ''404 Not Found'' \<and> finished res)
   \<and> (let res = fst (handler ''/app'' fs_absent ''2025-01-01T00:00:00.000Z''
                     \<lparr>method_name = ''GET'', url = ''/africa.html''\<rparr> world0)
    in statusCode res = 404
       \<and> getHeader ''Content-Type'' res = Some ''text/plain''
       \<and> body res = ''404 Not Found'' \<and> finished res)"
  by (rule conjI
        [OF html_route_read_failure [where fs = fs_unreadable and D = "''/app''" and u = "''/''",
              OF unreadable_paths(1) disjI1 [OF refl]]
            html_route_read_failure [where fs = fs_absent and D = "''/app''" and u = "''/africa.html''",
              OF absent_paths(1) disjI2 [OF refl]]])

section \<open>Everything else\<close>

text \<open>
  C5. A GET request whose path is none of \<open>/\<close>, \<open>/africa.html\<close> and
  \<open>/africa_monitoring.json\<close> is answered with status 404, content type \<open>text/plain\<close>
  and the body \<open>404 Not Found\<close>, whatever the file system holds; no file is read for
  it.
\<close>

theorem unknown_path_not_found:
  assumes "u \<noteq> ''/''" and "u \<noteq> ''/africa.html''" and "u \<noteq> ''/africa_monitoring.json''"
  shows "let (res, w') = handler D fs now \<lparr>method_name = ''GET'', url = u\<rparr> w
         in statusCode res = 404
            \<and> getHeader ''Content-Type'' res = Some ''text/plain''
            \<and> body res = ''404 Not Found'' \<and> finished res
            \<and> fs_reads w' = fs_reads w"
  using assms
  by (simp add: handler_fallback getHeader_def find_content_type not_found_response_def
        console_log_def)

theorem unknown_path_not_found_witness:
  "(let (res, w') = handler ''/app'' fs_present ''2025-01-01T00:00:00.000Z''
                      \<lparr>method_name = ''GET'', url = ''/unknown''\<rparr> world0
    in statusCode res = 404
       \<and> getHeader ''Content-Type'' res = Some ''text/plain''
       \<and> body res = ''404 Not Found'' \<and> finished res
       \<and> fs_reads w' = fs_reads world0)
   \<and> (let (res, w') = handler ''/app'' fs_absent ''2025-01-01T00:00:00.000Z''
                      \<lparr>method_name = ''GET'', url = ''/unknown''\<rparr> world0
    in statusCode res = 404
       \<and> getHeader ''Content-Type'' res = Some ''text/plain''
       \<and> body res = ''404 Not Found'' \<and> finished res
       \<and> fs_reads w' = fs_reads world0)"
  using unknown_path_not_found [where u = "''/unknown''" and D = "''/app''" and fs = fs_present
          and now = "''2025-01-01T00:00:00.000Z''" and w = world0]
        unknown_path_not_found [where u = "''/unknown''" and D = "''/app''" and fs = fs_absent
          and now = "''2025-01-01T00:00:00.000Z''" and w = world0]
  by simp

text \<open>
  C6. An OPTIONS request is answered with status 200, an empty body and the three CORS
  headers, for every path and every file system, and the handler reads no file for it.
\<close>

theorem options_preflight:
  "let (res, w') = handler D fs now \<lparr>method_name = ''OPTIONS'', url = u\<rparr> w
   in statusCode res = 200 \<and> body res = [] \<and> finished res
      \<and> getHeader ''Access-Control-Allow-Origin'' res = Some ''*''
      \<and> getHeader ''Access-Control-Allow-Methods'' res = Some ''GET, OPTIONS''
      \<and> getHeader ''Access-Control-Allow-Headers'' res = Some ''Content-Type''
      \<and> fs_reads w' = fs_reads w"
  using find_cors [of "[]"]
  by (simp add: handler_options getHeader_def console_log_def)

theorem options_preflight_witness:
  "let (res, w') = handler ''/app'' fs_present ''2025-01-01T00:00:00.000Z''
                     \<lparr>method_name = ''OPTIONS'', url = ''/anything''\<rparr> world0
   in statusCode res = 200 \<and> body res = [] \<and> finished res
      \<and> getHeader ''Access-Control-Allow-Origin'' res = Some ''*''
      \<and> getHeader ''Access-Control-Allow-Methods'' res = Some ''GET, OPTIONS''
      \<and> getHeader ''Access-Control-Allow-Headers'' res = Some ''Content-Type''
      \<and> fs_reads w' = fs_reads world0"
  by (rule options_preflight)

section \<open>CORS headers\<close>

lemma handler_cors:
  "getHeader ''Access-Control-Allow-Origin'' (fst (handler D fs now req w)) = Some ''*''
   \<and> getHeader ''Access-Control-Allow-Methods'' (fst (handler D fs now req w)) = Some ''GET, OPTIONS''
   \<and> getHeader ''Access-Control-Allow-Headers'' (fst (handler D fs now req w)) = Some ''Content-Type''"
proof -
  obtain hs where "headers (fst (handler D fs now req w)) = cors_headers @ hs"
    using handler_headers by blast
  then show ?thesis
    by (simp add: getHeader_def find_cors)
qed

lemma set_serve:
  "res \<in> set (fst (serve D es w)) \<Longrightarrow>
     \<exists>e w'. e \<in> set es \<and> res = fst (handler D (ev_fs e) (ev_now e) (ev_req e) w')"
proof (induction es arbitrary: w)
  case Nil
  then show ?case by simp
next
  case (Cons e es)
  then show ?case
    by (auto simp add: case_prod_unfold Let_def) blast+
qed

text \<open>
  C7. Every response the server produces, whatever the request and whatever branch
  answers it, carries \<open>Access-Control-Allow-Origin: *\<close>,
  \<open>Access-Control-Allow-Methods: GET, OPTIONS\<close> and
  \<open>Access-Control-Allow-Headers: Content-Type\<close>.
\<close>

theorem cors_on_every_response:
  "\<forall>res \<in> set (fst (serve D es w)).
     getHeader ''Access-Control-Allow-Origin'' res = Some ''*''
     \<and> getHeader ''Access-Control-Allow-Methods'' res = Some ''GET, OPTIONS''
     \<and> getHeader ''Access-Control-Allow-Headers'' res = Some ''Content-Type''"
  using set_serve handler_cors by metis

theorem cors_on_every_response_witness:
  "length (fst (serve ''/app'' example_events world0)) = 4
   \<and> list_all (\<lambda>res.
         getHeader ''Access-Control-Allow-Origin'' res = Some ''*''
         \<and> getHeader ''Access-Control-Allow-Methods'' res = Some ''GET, OPTIONS''
         \<and> getHeader ''Access-Control-Allow-Headers'' res = Some ''Content-Type'')
       (fst (serve ''/app'' example_events world0))"
proof -
  have "length (fst (serve ''/app'' example_events world0)) = 4"
    by (simp add: example_events_def case_prod_unfold Let_def)
  then show ?thesis
    using cors_on_every_response [of "''/app''" example_events world0]
    by (simp add: list_all_iff)
qed

section \<open>No state between requests\<close>

text \<open>
  C8. The server keeps nothing of the files between requests. The answer to a request
  is determined by the request and by what reading the two files gives at that moment:
  take any two runs of the server, with any earlier requests, any earlier file
  contents, any clock and any earlier log; if their last requests are the same and the
  two files read the same at that moment, the two last responses are equal.
\<close>

theorem no_cache:
  assumes "ev_req e1 = ev_req e2"
    and "ev_fs e1 (path_join D ''africa.html'') = ev_fs e2 (path_join D ''africa.html'')"
    and "ev_fs e1 (path_join D ''africa_monitoring.json'')
           = ev_fs e2 (path_join D ''africa_monitoring.json'')"
  shows "last (fst (serve D (h1 @ [e1]) w1)) = last (fst (serve D (h2 @ [e2]) w2))"
proof -
  have "last (fst (serve D (h1 @ [e1]) w1))
          = fst (handler D (ev_fs e1) (ev_now e1) (ev_req e1) (snd (serve D h1 w1)))"
    by (simp add: serve_snoc)
  also have "\<dots> = fst (handler D (ev_fs e2) (ev_now e2) (ev_req e2) (snd (serve D h2 w2)))"
    using assms handler_response_agree [of "ev_fs e1" D "ev_fs e2"] by simp
  also have "\<dots> = last (fst (serve D (h2 @ [e2]) w2))"
    by (simp add: serve_snoc)
  finally show ?thesis .
qed

theorem no_cache_witness:
  "last (fst (serve ''/app''
            (example_events @
              [\<lparr>ev_fs = fs_present, ev_now = ''2025-01-01T01:00:00.000Z'',
                ev_req = \<lparr>method_name = ''GET'', url = ''/africa_monitoring.json''\<rparr>\<rparr>])
            world0))
   = last (fst (serve ''/app''
            ([] @
              [\<lparr>ev_fs = fs_present, ev_now = ''2025-01-02T07:30:00.000Z'',
                ev_req = \<lparr>method_name = ''GET'', url = ''/africa_monitoring.json''\<rparr>\<rparr>])
            \<lparr>console = [''Africa monitoring server running on port 3001''], fs_reads = []\<rparr>))"
  by (rule no_cache) simp_all

section \<open>Routing looks at the URL only\<close>

text \<open>
  C9. Unless the method is OPTIONS, the method plays no part in the answer: the
  response, and the file read for it, are those of a GET request with the same URL. So
  POST or DELETE of \<open>/\<close> serves the HTML page and POST of \<open>/africa_monitoring.json\<close>
  serves the data file.
\<close>

theorem routing_ignores_method:
  assumes "method_name req \<noteq> ''OPTIONS''"
  shows "fst (handler D fs now req w) = fst (handler D fs now (req\<lparr>method_name := ''GET''\<rparr>) w)
         \<and> fs_reads (snd (handler D fs now req w))
             = fs_reads (snd (handler D fs now (req\<lparr>method_name := ''GET''\<rparr>) w))"
proof -
  let ?get = "req\<lparr>method_name := ''GET''\<rparr>"
  have g: "method_name ?get \<noteq> ''OPTIONS''" and u: "url ?get = url req"
    by simp_all
  consider (html) "url req = ''/'' \<or> url req = ''/africa.html''"
    | (json) "url req = ''/africa_monitoring.json''"
    | (other) "url req \<noteq> ''/''" "url req \<noteq> ''/africa.html''"
        "url req \<noteq> ''/africa_monitoring.json''"
    by blast
  then show ?thesis
  proof cases
    case html
    then have "url ?get = ''/'' \<or> url ?get = ''/africa.html''" by simp
    then show ?thesis
      using handler_html [OF assms html, of D fs now w] handler_html [OF g, of D fs now w]
      by (simp add: console_log_def)
  next
    case json
    then have "url ?get = ''/africa_monitoring.json''" by simp
    then show ?thesis
      using handler_json [OF assms json, of D fs now w] handler_json [OF g, of D fs now w]
      by (simp add: console_log_def)
  next
    case other
    then have "url ?get \<noteq> ''/''" "url ?get \<noteq> ''/africa.html''"
        "url ?get \<noteq> ''/africa_monitoring.json''" by simp_all
    then show ?thesis
      using handler_fallback [OF assms other, of D fs now w]
        handler_fallback [OF g, of D fs now w]
      by (simp add: console_log_def)
  qed
qed

theorem routing_ignores_method_witness:
  "(fst (handler ''/app'' fs_present ''2025-01-01T00:00:00.000Z''
           \<lparr>method_name = ''POST'', url = ''/''\<rparr> world0)
      = fst (handler ''/app'' fs_present ''2025-01-01T00:00:00.000Z''
           \<lparr>method_name = ''GET'', url = ''/''\<rparr> world0)
    \<and> fs_reads (snd (handler ''/app'' fs_present ''2025-01-01T00:00:00.000Z''
           \<lparr>method_name = ''POST'', url = ''/''\<rparr> world0))
      = fs_reads (snd (handler ''/app'' fs_present ''2025-01-01T00:00:00.000Z''
           \<lparr>method_name = ''GET'', url = ''/''\<rparr> world0)))
   \<and> (fst (handler ''/app'' fs_present ''2025-01-01T00:00:00.000Z''
           \<lparr>method_name = ''DELETE'', url = ''/africa_monitoring.json''\<rparr> world0)
      = fst (handler ''/app'' fs_present ''2025-01-01T00:00:00.000Z''
           \<lparr>method_name = ''GET'', url = ''/africa_monitoring.json''\<rparr> world0)
    \<and> fs_reads (snd (handler ''/app'' fs_present ''2025-01-01T00:00:00.000Z''
           \<lparr>method_name = ''DELETE'', url = ''/africa_monitoring.json''\<rparr> world0))
      = fs_reads (snd (handler ''/app'' fs_present ''2025-01-01T00:00:00.000Z''
           \<lparr>method_name = ''GET'', url = ''/africa_monitoring.json''\<rparr> world0)))
   \<and> body (fst (handler ''/app'' fs_present ''2025-01-01T00:00:00.000Z''
           \<lparr>method_name = ''POST'', url = ''/''\<rparr> world0)) = ''<html>Africa</html>''"
proof -
  have b: "body (fst (handler ''/app'' fs_present ''2025-01-01T00:00:00.000Z''
             \<lparr>method_name = ''GET'', url = ''/''\<rparr> world0)) = ''<html>Africa</html>''"
    by (simp add: handler_html present_paths)
  show ?thesis
    using b
      routing_ignores_method [where req = "\<lparr>method_name = ''POST'', url = ''/''\<rparr>"
        and D = "''/app''" and fs = fs_present and now = "''2025-01-01T00:00:00.000Z''"
        and w = world0]
      routing_ignores_method [where req = "\<lparr>method_name = ''DELETE'', url = ''/africa_monitoring.json''\<rparr>"
        and D = "''/app''" and fs = fs_present and now = "''2025-01-01T00:00:00.000Z''"
        and w = world0]
    by simp
qed

text \<open>
  C10. The URL is compared as a whole with the three routed strings, so a request
  (other than OPTIONS) whose URL has a query string, or is one of the routed strings
  followed by more characters, is answered with the fallback: status 404, content type
  \<open>text/plain\<close>, body \<open>404 Not Found\<close>. No file is read, so this holds even when
  both files exist. The routed strings \<open>/africa.html\<close> and \<open>/africa_monitoring.json\<close>
  themselves begin with the routed string \<open>/\<close>; they are the only extensions of a
  routed string that are routes, and the statement is about the others.
\<close>

theorem url_match_is_exact:
  assumes "method_name req \<noteq> ''OPTIONS''"
    and "CHR ''?'' \<in> set (url req)
         \<or> (\<exists>extra. extra \<noteq> []
               \<and> (url req = ''/africa.html'' @ extra
                  \<or> url req = ''/africa_monitoring.json'' @ extra))
         \<or> (\<exists>extra. extra \<noteq> [] \<and> url req = ''/'' @ extra
               \<and> url req \<noteq> ''/africa.html'' \<and> url req \<noteq> ''/africa_monitoring.json'')"
  shows "let (res, w') = handler D fs now req w
         in statusCode res = 404
            \<and> getHeader ''Content-Type'' res = Some ''text/plain''
            \<and> body res = ''404 Not Found'' \<and> finished res
            \<and> fs_reads w' = fs_reads w"
proof -
  have "url req \<noteq> ''/''" "url req \<noteq> ''/africa.html''"
    "url req \<noteq> ''/africa_monitoring.json''"
    using assms(2) by auto
  then show ?thesis
    using assms(1)
    by (simp add: handler_fallback getHeader_def find_content_type not_found_response_def
          console_log_def)
qed

theorem url_match_is_exact_witness:
  "(let (res, w') = handler ''/app'' fs_present ''2025-01-01T00:00:00.000Z''
                      \<lparr>method_name = ''GET'', url = ''/?x=1''\<rparr> world0
    in statusCode res = 404
       \<and> getHeader ''Content-Type'' res = Some ''text/plain''
       \<and> body res = ''404 Not Found'' \<and> finished res
       \<and> fs_reads w' = fs_reads world0)
   \<and> (let (res, w') = handler ''/app'' fs_present ''2025-01-01T00:00:00.000Z''
                      \<lparr>method_name = ''GET'', url = ''/africa.html/''\<rparr> world0
    in statusCode res = 404
       \<and> getHeader ''Content-Type'' res = Some ''text/plain''
       \<and> body res = ''404 Not Found'' \<and> finished res
       \<and> fs_reads w' = fs_reads world0)
   \<and> (let (res, w') = handler ''/app'' fs_present ''2025-01-01T00:00:00.000Z''
                      \<lparr>method_name = ''POST'', url = ''/africa_monitoring.json?t=1''\<rparr> world0
    in statusCode res = 404
       \<and> getHeader ''Content-Type'' res = Some ''text/plain''
       \<and> body res = ''404 Not Found'' \<and> finished res
       \<and> fs_reads w' = fs_reads world0)"
  using
    url_match_is_exact [where req = "\<lparr>method_name = ''GET'', url = ''/?x=1''\<rparr>"
      and D = "''/app''" and fs = fs_present and now = "''2025-01-01T00:00:00.000Z''"
      and w = world0]
    url_match_is_exact [where req = "\<lparr>method_name = ''GET'', url = ''/africa.html/''\<rparr>"
      and D = "''/app''" and fs = fs_present and now = "''2025-01-01T00:00:00.000Z''"
      and w = world0]
    url_match_is_exact [where req = "\<lparr>method_name = ''POST'', url = ''/africa_monitoring.json?t=1''\<rparr>"
      and D = "''/app''" and fs = fs_present and now = "''2025-01-01T00:00:00.000Z''"
      and w = world0]
  by simp

end
